theory Spec2Isabelle
  imports Main "HOL-Library.AList"
begin

section \<open>Python values and the builtins the module relies on\<close>

text \<open>
  The fields of the error classes of \<^verbatim>\<open>nats/js/errors.py\<close> hold \<^verbatim>\<open>None\<close>, integers and
  strings (\<^verbatim>\<open>Optional[int]\<close>, \<^verbatim>\<open>Optional[str]\<close>); a structured error is a
  \<^verbatim>\<open>Dict[str, Any]\<close> whose values are of the same three sorts. Python integers are
  unbounded. A Python \<^verbatim>\<open>str\<close> is modelled as a HOL string whose characters are the code
  points below 256.
\<close>

datatype pyval = PNone | PInt int | PStr string

text \<open>
  A \<^verbatim>\<open>dict\<close> keeps its keys in insertion order, and assigning to a key that is already
  there keeps its place: \<^const>\<open>map_of\<close> reads a key and \<^const>\<open>AList.update\<close> writes one.
\<close>

type_synonym 'v pydict = "(string \<times> 'v) list"

text \<open>
  \<^verbatim>\<open>str(n)\<close> for an integer: its decimal digits, with a leading minus sign when negative.
  (The interpreter's optional cap on the number of digits of a conversion is not modelled.)
\<close>

function str_nat :: "nat \<Rightarrow> string" where
  "str_nat n = (if n < 10 then [''0123456789'' ! n]
                else str_nat (n div 10) @ [''0123456789'' ! (n mod 10)])"
  by pat_completeness auto
termination
  by (relation "measure id") auto

definition str_int :: "int \<Rightarrow> string" where
  "str_int i = (if i < 0 then CHR ''-'' # str_nat (nat (- i)) else str_nat (nat i))"

text \<open>What an f-string field \<^verbatim>\<open>{v}\<close> prints: \<^verbatim>\<open>format(v, "")\<close>, which is \<^verbatim>\<open>str(v)\<close> here.\<close>

fun py_str :: "pyval \<Rightarrow> string" where
  "py_str PNone = ''None''"
| "py_str (PInt i) = str_int i"
| "py_str (PStr s) = s"

text \<open>Truth value testing, as in \<^verbatim>\<open>if self.description:\<close>.\<close>

fun py_bool :: "pyval \<Rightarrow> bool" where
  "py_bool PNone = False"
| "py_bool (PInt i) = (i \<noteq> 0)"
| "py_bool (PStr s) = (s \<noteq> [])"

text \<open>
  \<^verbatim>\<open>int(s)\<close> for a string, base ten: surrounding whitespace is dropped, one sign may lead,
  and single underscores may separate digits; anything else is a \<^verbatim>\<open>ValueError\<close>
  (\<open>None\<close>). The whitespace the conversion skips is tab, line feed, vertical tab, form
  feed, carriage return and space, and, of the code points from 128 to 255, next line and
  no-break space.
\<close>

definition is_space :: "char \<Rightarrow> bool" where
  "is_space c = (c \<in> set [CHR 0x09, CHR 0x0A, CHR 0x0B, CHR 0x0C, CHR 0x0D, CHR 0x20,
                           CHR 0x85, CHR 0xA0])"

definition strip :: "string \<Rightarrow> string" where
  "strip s = rev (dropWhile is_space (rev (dropWhile is_space s)))"

definition digit_val :: "char \<Rightarrow> nat option" where
  "digit_val c = map_of [(CHR ''0'', 0), (CHR ''1'', 1), (CHR ''2'', 2), (CHR ''3'', 3),
                         (CHR ''4'', 4), (CHR ''5'', 5), (CHR ''6'', 6), (CHR ''7'', 7),
                         (CHR ''8'', 8), (CHR ''9'', 9)] c"

fun digits_value :: "nat \<Rightarrow> string \<Rightarrow> nat option" where
  "digits_value acc [] = Some acc"
| "digits_value acc [c] =
     (case digit_val c of None \<Rightarrow> None | Some v \<Rightarrow> Some (10 * acc + v))"
| "digits_value acc (c # d # ds) =
     (if c = CHR ''_'' then
        (case digit_val d of None \<Rightarrow> None | Some v \<Rightarrow> digits_value (10 * acc + v) ds)
      else
        (case digit_val c of None \<Rightarrow> None | Some v \<Rightarrow> digits_value (10 * acc + v) (d # ds)))"

definition py_nat_literal :: "string \<Rightarrow> nat option" where
  "py_nat_literal s =
     (case s of
        [] \<Rightarrow> None
      | c # cs \<Rightarrow> (case digit_val c of None \<Rightarrow> None | Some v \<Rightarrow> digits_value v cs))"

definition py_int :: "string \<Rightarrow> int option" where
  "py_int s =
     (case strip s of
        [] \<Rightarrow> None
      | c # cs \<Rightarrow>
          if c = CHR ''-'' then map_option (\<lambda>n. - int n) (py_nat_literal cs)
          else if c = CHR ''+'' then map_option int (py_nat_literal cs)
          else map_option int (py_nat_literal (c # cs)))"

section \<open>The class hierarchy\<close>

text \<open>
  One constructor per class statement of the module, in source order, after the two
  classes the module imports as bases (\<^verbatim>\<open>nats.errors.Error\<close> and
  \<^verbatim>\<open>nats.errors.TimeoutError\<close>). The imported classes are defined outside the module:
  they are leaves of the model, and what lies above them is not represented.
\<close>

datatype kind =
    nats_errors_Error
  | nats_errors_TimeoutError
  | Error
  | APIError
  | ServiceUnavailableError
  | ServerError
  | NotFoundError
  | BadRequestError
  | NoStreamResponseError
  | TooManyStalledMsgsError
  | FetchTimeoutError
  | ConsumerSequenceMismatchError
  | BucketNotFoundError
  | BadBucketError
  | KeyValueError
  | KeyDeletedError
  | KeyNotFoundError
  | KeyWrongLastSequenceError
  | NoKeysError
  | KeyHistoryTooLargeError
  | InvalidBucketNameError
  | InvalidObjectNameError
  | BadObjectMetaError
  | LinkIsABucketError
  | DigestMismatchError
  | ObjectNotFoundError
  | ObjectDeletedError
  | ObjectAlreadyExists

text \<open>The bases of each class statement, in the order they are written.\<close>

fun bases :: "kind \<Rightarrow> kind list" where
  "bases nats_errors_Error = []"
| "bases nats_errors_TimeoutError = []"
| "bases Error = [nats_errors_Error]"
| "bases APIError = [Error]"
| "bases ServiceUnavailableError = [APIError]"
| "bases ServerError = [APIError]"
| "bases NotFoundError = [APIError]"
| "bases BadRequestError = [APIError]"
| "bases NoStreamResponseError = [Error]"
| "bases TooManyStalledMsgsError = [Error]"
| "bases FetchTimeoutError = [nats_errors_TimeoutError]"
| "bases ConsumerSequenceMismatchError = [Error]"
| "bases BucketNotFoundError = [NotFoundError]"
| "bases BadBucketError = [APIError]"
| "bases KeyValueError = [APIError]"
| "bases KeyDeletedError = [KeyValueError, NotFoundError]"
| "bases KeyNotFoundError = [KeyValueError, NotFoundError]"
| "bases KeyWrongLastSequenceError = [KeyValueError, BadRequestError]"
| "bases NoKeysError = [KeyValueError]"
| "bases KeyHistoryTooLargeError = [KeyValueError]"
| "bases InvalidBucketNameError = [Error]"
| "bases InvalidObjectNameError = [Error]"
| "bases BadObjectMetaError = [Error]"
| "bases LinkIsABucketError = [Error]"
| "bases DigestMismatchError = [Error]"
| "bases ObjectNotFoundError = [NotFoundError]"
| "bases ObjectDeletedError = [NotFoundError]"
| "bases ObjectAlreadyExists = [Error]"

text \<open>\<^verbatim>\<open>__name__\<close> of each class, as \<^verbatim>\<open>__str__\<close> embeds it.\<close>

fun class_name :: "kind \<Rightarrow> string" where
  "class_name nats_errors_Error = ''Error''"
| "class_name nats_errors_TimeoutError = ''TimeoutError''"
| "class_name Error = ''Error''"
| "class_name APIError = ''APIError''"
| "class_name ServiceUnavailableError = ''ServiceUnavailableError''"
| "class_name ServerError = ''ServerError''"
| "class_name NotFoundError = ''NotFoundError''"
| "class_name BadRequestError = ''BadRequestError''"
| "class_name NoStreamResponseError = ''NoStreamResponseError''"
| "class_name TooManyStalledMsgsError = ''TooManyStalledMsgsError''"
| "class_name FetchTimeoutError = ''FetchTimeoutError''"
| "class_name ConsumerSequenceMismatchError = ''ConsumerSequenceMismatchError''"
| "class_name BucketNotFoundError = ''BucketNotFoundError''"
| "class_name BadBucketError = ''BadBucketError''"
| "class_name KeyValueError = ''KeyValueError''"
| "class_name KeyDeletedError = ''KeyDeletedError''"
| "class_name KeyNotFoundError = ''KeyNotFoundError''"
| "class_name KeyWrongLastSequenceError = ''KeyWrongLastSequenceError''"
| "class_name NoKeysError = ''NoKeysError''"
| "class_name KeyHistoryTooLargeError = ''KeyHistoryTooLargeError''"
| "class_name InvalidBucketNameError = ''InvalidBucketNameError''"
| "class_name InvalidObjectNameError = ''InvalidObjectNameError''"
| "class_name BadObjectMetaError = ''BadObjectMetaError''"
| "class_name LinkIsABucketError = ''LinkIsABucketError''"
| "class_name DigestMismatchError = ''DigestMismatchError''"
| "class_name ObjectNotFoundError = ''ObjectNotFoundError''"
| "class_name ObjectDeletedError = ''ObjectDeletedError''"
| "class_name ObjectAlreadyExists = ''ObjectAlreadyExists''"

text \<open>
  The line of the module at which each class becomes known (the import, for the two
  imported classes). A class statement can only name bases that already exist, which is
  what makes the recursion of the method resolution order terminate.
\<close>

fun defined_at :: "kind \<Rightarrow> nat" where
  "defined_at nats_errors_Error = 20"
| "defined_at nats_errors_TimeoutError = 20"
| "defined_at Error = 27"
| "defined_at APIError = 43"
| "defined_at ServiceUnavailableError = 100"
| "defined_at ServerError = 108"
| "defined_at NotFoundError = 116"
| "defined_at BadRequestError = 124"
| "defined_at NoStreamResponseError = 132"
| "defined_at TooManyStalledMsgsError = 141"
| "defined_at FetchTimeoutError = 150"
| "defined_at ConsumerSequenceMismatchError = 159"
| "defined_at BucketNotFoundError = 183"
| "defined_at BadBucketError = 191"
| "defined_at KeyValueError = 195"
| "defined_at KeyDeletedError = 203"
| "defined_at KeyNotFoundError = 216"
| "defined_at KeyWrongLastSequenceError = 233"
| "defined_at NoKeysError = 245"
| "defined_at KeyHistoryTooLargeError = 251"
| "defined_at InvalidBucketNameError = 257"
| "defined_at InvalidObjectNameError = 265"
| "defined_at BadObjectMetaError = 273"
| "defined_at LinkIsABucketError = 281"
| "defined_at DigestMismatchError = 289"
| "defined_at ObjectNotFoundError = 297"
| "defined_at ObjectDeletedError = 305"
| "defined_at ObjectAlreadyExists = 313"

subsection \<open>Method resolution order (C3 linearisation)\<close>

text \<open>
  Python linearises the ancestors of a class by merging the linearisations of its bases
  with the list of the bases: the next class is the first head of a remaining sequence
  that occurs in the tail of none of them; it is then removed from the front of every
  sequence it heads. When no head qualifies the hierarchy is inconsistent and the class
  statement itself fails (\<open>None\<close>).
\<close>

definition c3_candidate :: "'a list list \<Rightarrow> 'a option" where
  "c3_candidate seqs = find (\<lambda>c. \<forall>s \<in> set seqs. c \<notin> set (tl s)) (map hd seqs)"

definition c3_advance :: "'a \<Rightarrow> 'a list list \<Rightarrow> 'a list list" where
  "c3_advance c seqs = map (\<lambda>s. if hd s = c then tl s else s) seqs"

lemma c3_advance_le:
  "sum_list (map length (c3_advance c seqs)) \<le> sum_list (map length seqs)"
  unfolding c3_advance_def by (induction seqs) auto

lemma c3_advance_less:
  assumes "s \<in> set seqs" and "s \<noteq> []" and "hd s = c"
  shows "sum_list (map length (c3_advance c seqs)) < sum_list (map length seqs)"
  using assms
proof (induction seqs)
  case Nil
  then show ?case by simp
next
  case (Cons a seqs)
  show ?case
  proof (cases "a = s")
    case True
    have "length (tl s) < length s"
      using Cons.prems(2) by (cases s) auto
    moreover have "sum_list (map length (c3_advance c seqs)) \<le> sum_list (map length seqs)"
      by (rule c3_advance_le)
    ultimately show ?thesis
      using True Cons.prems(3) by (simp add: c3_advance_def)
  next
    case False
    then have "s \<in> set seqs"
      using Cons.prems(1) by simp
    from Cons.IH[OF this Cons.prems(2,3)] show ?thesis
      by (auto simp: c3_advance_def)
  qed
qed

lemma c3_candidate_is_head:
  assumes "c3_candidate seqs = Some c"
  shows "\<exists>s \<in> set seqs. hd s = c"
  using assms unfolding c3_candidate_def by (auto simp: find_Some_iff)

lemma total_length_filter_le:
  "sum_list (map length (filter P seqs)) \<le> sum_list (map length seqs)"
  by (induction seqs) auto

function c3_merge :: "'a list list \<Rightarrow> 'a list option" where
  "c3_merge seqs =
     (let nonempty = filter (\<lambda>s. s \<noteq> []) seqs in
      if nonempty = [] then Some []
      else (case c3_candidate nonempty of
              None \<Rightarrow> None
            | Some c \<Rightarrow> map_option ((#) c) (c3_merge (c3_advance c nonempty))))"
  by pat_completeness auto
termination
proof (relation "measure (\<lambda>seqs. sum_list (map length seqs))")
  show "wf (measure (\<lambda>seqs. sum_list (map length seqs)))"
    by simp
next
  fix seqs :: "'a list list" and nonempty c
  assume ne: "nonempty = filter (\<lambda>s. s \<noteq> []) seqs"
    and cand: "c3_candidate nonempty = Some c"
  from c3_candidate_is_head[OF cand] obtain s where s: "s \<in> set nonempty" "hd s = c"
    by blast
  then have "s \<noteq> []"
    using ne by simp
  from c3_advance_less[OF s(1) this s(2)]
  have "sum_list (map length (c3_advance c nonempty)) < sum_list (map length nonempty)" .
  also have "\<dots> \<le> sum_list (map length seqs)"
    unfolding ne by (rule total_length_filter_le)
  finally show "(c3_advance c nonempty, seqs) \<in> measure (\<lambda>seqs. sum_list (map length seqs))"
    by simp
qed

function mro :: "kind \<Rightarrow> kind list option" where
  "mro k = (case those (map mro (bases k)) of
              None \<Rightarrow> None
            | Some ls \<Rightarrow> map_option ((#) k) (c3_merge (ls @ [bases k])))"
  by pat_completeness auto
termination
proof (relation "measure defined_at")
  show "wf (measure defined_at)"
    by simp
next
  fix k b
  assume "b \<in> set (bases k)"
  then show "(b, k) \<in> measure defined_at"
    by (cases k) auto
qed

text \<open>\<^verbatim>\<open>issubclass(k, k')\<close>: \<open>k'\<close> occurs in the resolution order of \<open>k\<close>.\<close>

definition issubclass :: "kind \<Rightarrow> kind \<Rightarrow> bool" where
  "issubclass k k' = (case mro k of None \<Rightarrow> False | Some ks \<Rightarrow> k' \<in> set ks)"

text \<open>
  A method is looked up along the resolution order: the first class that defines it wins.
\<close>

definition lookup_method :: "(kind \<Rightarrow> bool) \<Rightarrow> kind \<Rightarrow> kind option" where
  "lookup_method defines k = (case mro k of None \<Rightarrow> None | Some ks \<Rightarrow> find defines ks)"

text \<open>The classes whose body has a \<^verbatim>\<open>def __init__\<close>, and those with a \<^verbatim>\<open>def __str__\<close>.\<close>

definition defines_init :: "kind \<Rightarrow> bool" where
  "defines_init k = (k \<in> set [Error, APIError, ConsumerSequenceMismatchError,
                               KeyDeletedError, KeyNotFoundError, KeyWrongLastSequenceError])"

definition defines_str :: "kind \<Rightarrow> bool" where
  "defines_str k = (k \<in> set [Error, APIError, NoStreamResponseError, TooManyStalledMsgsError,
                              FetchTimeoutError, ConsumerSequenceMismatchError, KeyDeletedError,
                              KeyNotFoundError, KeyWrongLastSequenceError, NoKeysError,
                              KeyHistoryTooLargeError])"

section \<open>Exception objects\<close>

text \<open>
  An instance is its class and its attribute dictionary. None of the classes has a
  class-level data attribute (the annotated fields of the \<^verbatim>\<open>APIError\<close> dataclass have no
  defaults), so reading an attribute that no \<^verbatim>\<open>__init__\<close> assigned is an
  \<^verbatim>\<open>AttributeError\<close>.
\<close>

record pyobj =
  cls :: kind
  attrs :: "pyval pydict"

datatype pyerr =
    Raised pyobj
  | KeyError string
  | AttributeError string
  | TypeError
  | ValueError

definition setattr :: "pyobj \<Rightarrow> string \<Rightarrow> pyval \<Rightarrow> pyobj" where
  "setattr self name v = self\<lparr>attrs := AList.update name v (attrs self)\<rparr>"

definition getattr :: "pyobj \<Rightarrow> string \<Rightarrow> pyerr + pyval" where
  "getattr self name =
     (case map_of (attrs self) name of None \<Rightarrow> Inl (AttributeError name) | Some v \<Rightarrow> Inr v)"

definition isinstance :: "pyobj \<Rightarrow> kind \<Rightarrow> bool" where
  "isinstance self k = issubclass (cls self) k"

subsection \<open>The constructors\<close>

text \<open>
  Each \<^verbatim>\<open>__init__\<close> assigns its parameters to attributes, in the order of its body. None
  of them calls the initialiser of a base class. The \<^verbatim>\<open>entry\<close> and \<^verbatim>\<open>op\<close> of the key errors
  are stored and never read by the module.
\<close>

definition Error_init :: "pyobj \<Rightarrow> pyval \<Rightarrow> pyobj" where
  "Error_init self description = setattr self ''description'' description"

definition APIError_init ::
  "pyobj \<Rightarrow> pyval \<Rightarrow> pyval \<Rightarrow> pyval \<Rightarrow> pyval \<Rightarrow> pyval \<Rightarrow> pyobj" where
  "APIError_init self code description err_code stream seq =
     (let self = setattr self ''code'' code;
          self = setattr self ''err_code'' err_code;
          self = setattr self ''description'' description;
          self = setattr self ''stream'' stream;
          self = setattr self ''seq'' seq
      in self)"

definition ConsumerSequenceMismatchError_init ::
  "pyobj \<Rightarrow> pyval \<Rightarrow> pyval \<Rightarrow> pyval \<Rightarrow> pyobj" where
  "ConsumerSequenceMismatchError_init self stream_resume_sequence consumer_sequence
       last_consumer_sequence =
     (let self = setattr self ''stream_resume_sequence'' stream_resume_sequence;
          self = setattr self ''consumer_sequence'' consumer_sequence;
          self = setattr self ''last_consumer_sequence'' last_consumer_sequence
      in self)"

definition KeyDeletedError_init :: "pyobj \<Rightarrow> pyval \<Rightarrow> pyval \<Rightarrow> pyobj" where
  "KeyDeletedError_init self entry op =
     (let self = setattr self ''entry'' entry;
          self = setattr self ''op'' op
      in self)"

definition KeyNotFoundError_init :: "pyobj \<Rightarrow> pyval \<Rightarrow> pyval \<Rightarrow> pyval \<Rightarrow> pyobj" where
  "KeyNotFoundError_init self entry op message =
     (let self = setattr self ''entry'' entry;
          self = setattr self ''op'' op;
          self = setattr self ''message'' message
      in self)"

definition KeyWrongLastSequenceError_init :: "pyobj \<Rightarrow> pyval \<Rightarrow> pyobj" where
  "KeyWrongLastSequenceError_init self description = setattr self ''description'' description"

text \<open>
  Binding keyword arguments to parameters. Every parameter of every \<^verbatim>\<open>__init__\<close> of the
  module defaults to \<^verbatim>\<open>None\<close>; a keyword that names no parameter is a \<^verbatim>\<open>TypeError\<close>.
  Arguments are passed by keyword throughout, as the module itself does.
\<close>

definition kwarg :: "pyval pydict \<Rightarrow> string \<Rightarrow> pyval" where
  "kwarg kwargs p = (case map_of kwargs p of None \<Rightarrow> PNone | Some v \<Rightarrow> v)"

definition bind_kwargs :: "string list \<Rightarrow> pyval pydict \<Rightarrow> pyerr + (string \<Rightarrow> pyval)" where
  "bind_kwargs params kwargs =
     (if \<forall>k \<in> set (map fst kwargs). k \<in> set params
      then Inr (kwarg kwargs)
      else Inl TypeError)"

text \<open>
  Calling a class, \<^verbatim>\<open>k(**kwargs)\<close>: a fresh instance, initialised by the \<^verbatim>\<open>__init__\<close> that
  the resolution order finds. When no class of the module supplies one (only
  \<^verbatim>\<open>FetchTimeoutError\<close> and the imported classes), the builtin exception initialiser is
  assumed: it takes no keyword arguments and assigns no attribute.
\<close>

definition construct :: "kind \<Rightarrow> pyval pydict \<Rightarrow> pyerr + pyobj" where
  "construct k kwargs =
     (let self = \<lparr>cls = k, attrs = []\<rparr> in
      case lookup_method defines_init k of
        Some Error \<Rightarrow>
          map_sum id (\<lambda>a. Error_init self (a ''description''))
            (bind_kwargs [''description''] kwargs)
      | Some APIError \<Rightarrow>
          map_sum id
            (\<lambda>a. APIError_init self (a ''code'') (a ''description'') (a ''err_code'')
                   (a ''stream'') (a ''seq''))
            (bind_kwargs [''code'', ''description'', ''err_code'', ''stream'', ''seq''] kwargs)
      | Some ConsumerSequenceMismatchError \<Rightarrow>
          map_sum id
            (\<lambda>a. ConsumerSequenceMismatchError_init self (a ''stream_resume_sequence'')
                   (a ''consumer_sequence'') (a ''last_consumer_sequence''))
            (bind_kwargs [''stream_resume_sequence'', ''consumer_sequence'',
                          ''last_consumer_sequence''] kwargs)
      | Some KeyDeletedError \<Rightarrow>
          map_sum id (\<lambda>a. KeyDeletedError_init self (a ''entry'') (a ''op''))
            (bind_kwargs [''entry'', ''op''] kwargs)
      | Some KeyNotFoundError \<Rightarrow>
          map_sum id (\<lambda>a. KeyNotFoundError_init self (a ''entry'') (a ''op'') (a ''message''))
            (bind_kwargs [''entry'', ''op'', ''message''] kwargs)
      | Some KeyWrongLastSequenceError \<Rightarrow>
          map_sum id (\<lambda>a. KeyWrongLastSequenceError_init self (a ''description''))
            (bind_kwargs [''description''] kwargs)
      | _ \<Rightarrow> if kwargs = [] then Inr self else Inl TypeError)"

text \<open>\<^verbatim>\<open>raise k(**kwargs)\<close>; a bare \<^verbatim>\<open>raise k\<close> instantiates the class without arguments.\<close>

definition raise_new :: "kind \<Rightarrow> pyval pydict \<Rightarrow> pyerr" where
  "raise_new k kwargs = (case construct k kwargs of Inl e \<Rightarrow> e | Inr self \<Rightarrow> Raised self)"

subsection \<open>String conversion\<close>

text \<open>The bodies of the \<^verbatim>\<open>__str__\<close> methods that read attributes.\<close>

definition Error_str :: "pyobj \<Rightarrow> pyerr + string" where
  "Error_str self =
     (case getattr self ''description'' of
        Inl e \<Rightarrow> Inl e
      | Inr description \<Rightarrow>
          (let desc = (if py_bool description then py_str description else [])
           in Inr (''nats: JetStream.'' @ class_name (cls self) @ '' '' @ desc)))"

definition APIError_str :: "pyobj \<Rightarrow> pyerr + string" where
  "APIError_str self =
     (case getattr self ''code'' of
        Inl e \<Rightarrow> Inl e
      | Inr code \<Rightarrow>
     (case getattr self ''err_code'' of
        Inl e \<Rightarrow> Inl e
      | Inr err_code \<Rightarrow>
     (case getattr self ''description'' of
        Inl e \<Rightarrow> Inl e
      | Inr description \<Rightarrow>
          Inr (''nats: '' @ class_name (cls self) @ '': code='' @ py_str code
               @ '' err_code='' @ py_str err_code
               @ '' description='' @ [CHR 0x27] @ py_str description @ [CHR 0x27]))))"

text \<open>Subtraction is defined between integers; on anything else it is a \<^verbatim>\<open>TypeError\<close>.\<close>

fun py_sub :: "pyval \<Rightarrow> pyval \<Rightarrow> pyerr + pyval" where
  "py_sub (PInt a) (PInt b) = Inr (PInt (a - b))"
| "py_sub _ _ = Inl TypeError"

definition ConsumerSequenceMismatchError_str :: "pyobj \<Rightarrow> pyerr + string" where
  "ConsumerSequenceMismatchError_str self =
     (case getattr self ''last_consumer_sequence'' of
        Inl e \<Rightarrow> Inl e
      | Inr last_consumer_sequence \<Rightarrow>
     (case getattr self ''consumer_sequence'' of
        Inl e \<Rightarrow> Inl e
      | Inr consumer_sequence \<Rightarrow>
     (case py_sub last_consumer_sequence consumer_sequence of
        Inl e \<Rightarrow> Inl e
      | Inr gap \<Rightarrow>
     (case getattr self ''stream_resume_sequence'' of
        Inl e \<Rightarrow> Inl e
      | Inr stream_resume_sequence \<Rightarrow>
          Inr (''nats: sequence mismatch for consumer at sequence '' @ py_str consumer_sequence
               @ '' ('' @ py_str gap
               @ '' sequences behind), should restart consumer from stream sequence ''
               @ py_str stream_resume_sequence)))))"

definition KeyNotFoundError_str :: "pyobj \<Rightarrow> pyerr + string" where
  "KeyNotFoundError_str self =
     (let s = ''nats: key not found'' in
      case getattr self ''message'' of
        Inl e \<Rightarrow> Inl e
      | Inr message \<Rightarrow> Inr (if py_bool message then s @ '': '' @ py_str message else s))"

definition KeyWrongLastSequenceError_str :: "pyobj \<Rightarrow> pyerr + string" where
  "KeyWrongLastSequenceError_str self =
     (case getattr self ''description'' of
        Inl e \<Rightarrow> Inl e
      | Inr description \<Rightarrow> Inr (''nats: '' @ py_str description))"

text \<open>
  \<^verbatim>\<open>str(self)\<close>: the \<^verbatim>\<open>__str__\<close> that the resolution order finds for the class of the
  instance. Every class of the module finds one inside the module; for an instance of an
  imported class the builtin conversion of an exception without arguments is assumed.
\<close>

definition exc_str :: "pyobj \<Rightarrow> pyerr + string" where
  "exc_str self =
     (case lookup_method defines_str (cls self) of
        Some Error \<Rightarrow> Error_str self
      | Some APIError \<Rightarrow> APIError_str self
      | Some NoStreamResponseError \<Rightarrow> Inr ''nats: no response from stream''
      | Some TooManyStalledMsgsError \<Rightarrow>
          Inr ''nats: stalled with too many outstanding async published messages''
      | Some FetchTimeoutError \<Rightarrow> Inr ''nats: fetch timeout''
      | Some ConsumerSequenceMismatchError \<Rightarrow> ConsumerSequenceMismatchError_str self
      | Some KeyDeletedError \<Rightarrow> Inr ''nats: key was deleted''
      | Some KeyNotFoundError \<Rightarrow> KeyNotFoundError_str self
      | Some KeyWrongLastSequenceError \<Rightarrow> KeyWrongLastSequenceError_str self
      | Some NoKeysError \<Rightarrow> Inr ''nats: no keys found''
      | Some KeyHistoryTooLargeError \<Rightarrow> Inr ''nats: history limited to a max of 64''
      | _ \<Rightarrow> Inr [])"

text \<open>\<^verbatim>\<open>str(k(**kwargs))\<close>: construct, then convert.\<close>

definition str_of_new :: "kind \<Rightarrow> pyval pydict \<Rightarrow> pyerr + string" where
  "str_of_new k kwargs = (case construct k kwargs of Inl e \<Rightarrow> Inl e | Inr self \<Rightarrow> exc_str self)"

section \<open>Classification\<close>

text \<open>
  The names \<^verbatim>\<open>api.Header.STATUS\<close>, \<^verbatim>\<open>api.Header.DESCRIPTION\<close> and
  \<^verbatim>\<open>api.StatusCode.SERVICE_UNAVAILABLE\<close> come from the module \<^verbatim>\<open>nats.js.api\<close>, and the
  message from \<^verbatim>\<open>nats.aio.msg\<close>. The three constants are parameters of the model; of the
  message only its \<^verbatim>\<open>header\<close> is read, which is \<^verbatim>\<open>None\<close> or a dictionary from header names
  to strings.
\<close>

record api =
  Header_STATUS :: string
  Header_DESCRIPTION :: string
  StatusCode_SERVICE_UNAVAILABLE :: string

record msg =
  header :: "string pydict option"

text \<open>
  The values the three names have in \<^verbatim>\<open>nats.js.api\<close>. The general statements below hold
  for any values; these serve where a concrete input is evaluated.
\<close>

definition nats_js_api :: api where
  "nats_js_api = \<lparr>Header_STATUS = ''Status'', Header_DESCRIPTION = ''Description'',
                   StatusCode_SERVICE_UNAVAILABLE = ''503''\<rparr>"

text \<open>
  \<^verbatim>\<open>APIError.from_msg\<close> never returns: the value of the model is the exception it raises. A
  subscript on a dictionary raises \<^verbatim>\<open>KeyError\<close> when the key is missing. The description is
  read before the status is converted. (The class the method is called on is not used.)
\<close>

definition from_msg :: "api \<Rightarrow> msg \<Rightarrow> pyerr" where
  "from_msg api m =
     (case header m of
        None \<Rightarrow> raise_new APIError []
      | Some hdr \<Rightarrow>
          (case map_of hdr (Header_STATUS api) of
             None \<Rightarrow> KeyError (Header_STATUS api)
           | Some code \<Rightarrow>
               if code = StatusCode_SERVICE_UNAVAILABLE api
               then raise_new ServiceUnavailableError []
               else
                 (case map_of hdr (Header_DESCRIPTION api) of
                    None \<Rightarrow> KeyError (Header_DESCRIPTION api)
                  | Some desc \<Rightarrow>
                      (case py_int code of
                         None \<Rightarrow> ValueError
                       | Some n \<Rightarrow>
                           raise_new APIError
                             [(''code'', PInt n), (''description'', PStr desc)]))))"

text \<open>\<^verbatim>\<open>APIError.from_error\<close>: the structured error is passed on as keyword arguments.\<close>

definition from_error :: "pyval pydict \<Rightarrow> pyerr" where
  "from_error err =
     (case map_of err ''code'' of
        None \<Rightarrow> KeyError ''code''
      | Some code \<Rightarrow>
          if code = PInt 503 then raise_new ServiceUnavailableError err
          else if code = PInt 500 then raise_new ServerError err
          else if code = PInt 404 then raise_new NotFoundError err
          else if code = PInt 400 then raise_new BadRequestError err
          else raise_new APIError err)"

section \<open>Resolution of the hierarchy\<close>

text \<open>
  The resolution order of every class, computed once, and from it the class that supplies
  \<^verbatim>\<open>__init__\<close> and \<^verbatim>\<open>__str__\<close> to each class.
\<close>

lemma mro_table:
  "mro nats_errors_Error = Some [nats_errors_Error]"
  "mro nats_errors_TimeoutError = Some [nats_errors_TimeoutError]"
  "mro Error = Some [Error, nats_errors_Error]"
  "mro APIError = Some [APIError, Error, nats_errors_Error]"
  "mro ServiceUnavailableError = Some [ServiceUnavailableError, APIError, Error, nats_errors_Error]"
  "mro ServerError = Some [ServerError, APIError, Error, nats_errors_Error]"
  "mro NotFoundError = Some [NotFoundError, APIError, Error, nats_errors_Error]"
  "mro BadRequestError = Some [BadRequestError, APIError, Error, nats_errors_Error]"
  "mro NoStreamResponseError = Some [NoStreamResponseError, Error, nats_errors_Error]"
  "mro TooManyStalledMsgsError = Some [TooManyStalledMsgsError, Error, nats_errors_Error]"
  "mro FetchTimeoutError = Some [FetchTimeoutError, nats_errors_TimeoutError]"
  "mro ConsumerSequenceMismatchError = Some [ConsumerSequenceMismatchError, Error, nats_errors_Error]"
  "mro BucketNotFoundError = Some [BucketNotFoundError, NotFoundError, APIError, Error, nats_errors_Error]"
  "mro BadBucketError = Some [BadBucketError, APIError, Error, nats_errors_Error]"
  "mro KeyValueError = Some [KeyValueError, APIError, Error, nats_errors_Error]"
  "mro KeyDeletedError = Some [KeyDeletedError, KeyValueError, NotFoundError, APIError, Error, nats_errors_Error]"
  "mro KeyNotFoundError = Some [KeyNotFoundError, KeyValueError, NotFoundError, APIError, Error, nats_errors_Error]"
  "mro KeyWrongLastSequenceError = Some [KeyWrongLastSequenceError, KeyValueError, BadRequestError, APIError, Error, nats_errors_Error]"
  "mro NoKeysError = Some [NoKeysError, KeyValueError, APIError, Error, nats_errors_Error]"
  "mro KeyHistoryTooLargeError = Some [KeyHistoryTooLargeError, KeyValueError, APIError, Error, nats_errors_Error]"
  "mro InvalidBucketNameError = Some [InvalidBucketNameError, Error, nats_errors_Error]"
  "mro InvalidObjectNameError = Some [InvalidObjectNameError, Error, nats_errors_Error]"
  "mro BadObjectMetaError = Some [BadObjectMetaError, Error, nats_errors_Error]"
  "mro LinkIsABucketError = Some [LinkIsABucketError, Error, nats_errors_Error]"
  "mro DigestMismatchError = Some [DigestMismatchError, Error, nats_errors_Error]"
  "mro ObjectNotFoundError = Some [ObjectNotFoundError, NotFoundError, APIError, Error, nats_errors_Error]"
  "mro ObjectDeletedError = Some [ObjectDeletedError, NotFoundError, APIError, Error, nats_errors_Error]"
  "mro ObjectAlreadyExists = Some [ObjectAlreadyExists, Error, nats_errors_Error]"
  by (simp_all add: c3_candidate_def c3_advance_def)

declare mro.simps [simp del]
declare c3_merge.simps [simp del]
declare str_nat.simps [simp del]

lemma init_owner:
  "lookup_method defines_init k =
     (if k \<in> {nats_errors_Error, nats_errors_TimeoutError, FetchTimeoutError} then None
      else if k \<in> {ConsumerSequenceMismatchError, KeyDeletedError, KeyNotFoundError,
                    KeyWrongLastSequenceError} then Some k
      else if k \<in> {Error, NoStreamResponseError, TooManyStalledMsgsError, InvalidBucketNameError,
                    InvalidObjectNameError, BadObjectMetaError, LinkIsABucketError,
                    DigestMismatchError, ObjectAlreadyExists} then Some Error
      else Some APIError)"
  by (cases k) (simp_all add: lookup_method_def mro_table defines_init_def)

lemma str_owner:
  "lookup_method defines_str k =
     (if k \<in> {nats_errors_Error, nats_errors_TimeoutError} then None
      else if k \<in> {NoStreamResponseError, TooManyStalledMsgsError, FetchTimeoutError,
                    ConsumerSequenceMismatchError, KeyDeletedError, KeyNotFoundError,
                    KeyWrongLastSequenceError, NoKeysError, KeyHistoryTooLargeError} then Some k
      else if k \<in> {Error, InvalidBucketNameError,
                    InvalidObjectNameError, BadObjectMetaError, LinkIsABucketError,
                    DigestMismatchError, ObjectAlreadyExists} then Some Error
      else Some APIError)"
  by (cases k) (simp_all add: lookup_method_def mro_table defines_str_def)

section \<open>Classification of structured errors\<close>

text \<open>
  Calling one of the five status classes with keywords drawn from the parameters of
  \<^verbatim>\<open>APIError.__init__\<close> succeeds, and each attribute holds the keyword's value, or
  \<^verbatim>\<open>None\<close> when the keyword is missing.
\<close>

lemma construct_APIError_family:
  assumes "k \<in> {APIError, ServiceUnavailableError, ServerError, NotFoundError, BadRequestError}"
    and "set (map fst kwargs) \<subseteq> {''code'', ''description'', ''err_code'', ''stream'', ''seq''}"
  shows "construct k kwargs =
           Inr \<lparr>cls = k,
                attrs = [(''code'', kwarg kwargs ''code''),
                         (''err_code'', kwarg kwargs ''err_code''),
                         (''description'', kwarg kwargs ''description''),
                         (''stream'', kwarg kwargs ''stream''),
                         (''seq'', kwarg kwargs ''seq'')]\<rparr>"
proof -
  have owner: "lookup_method defines_init k = Some APIError"
    using assms(1) by (auto simp: init_owner)
  have bound: "bind_kwargs [''code'', ''description'', ''err_code'', ''stream'', ''seq''] kwargs
                 = Inr (kwarg kwargs)"
    using assms(2) by (auto simp: bind_kwargs_def)
  show ?thesis
    by (simp add: construct_def owner bound APIError_init_def setattr_def)
qed

text \<open>
  Claim C1. For a structured error whose keys are among \<^verbatim>\<open>code\<close>, \<^verbatim>\<open>err_code\<close>,
  \<^verbatim>\<open>description\<close>, \<^verbatim>\<open>stream\<close> and \<^verbatim>\<open>seq\<close> and whose \<^verbatim>\<open>code\<close> is the integer \<open>c\<close>,
  \<^verbatim>\<open>APIError.from_error\<close> raises a \<^verbatim>\<open>ServiceUnavailableError\<close> for 503, a
  \<^verbatim>\<open>ServerError\<close> for 500, a \<^verbatim>\<open>NotFoundError\<close> for 404, a \<^verbatim>\<open>BadRequestError\<close> for 400 and
  a plain \<^verbatim>\<open>APIError\<close> for any other code. Each of the five attributes of the raised
  object is the value the mapping supplies for it, and \<^verbatim>\<open>None\<close> when the mapping omits it.
\<close>

theorem from_error_classifies:
  assumes "map_of err ''code'' = Some (PInt c)"
    and "set (map fst err) \<subseteq> {''code'', ''err_code'', ''description'', ''stream'', ''seq''}"
  shows "from_error err =
           Raised \<lparr>cls = (if c = 503 then ServiceUnavailableError
                          else if c = 500 then ServerError
                          else if c = 404 then NotFoundError
                          else if c = 400 then BadRequestError
                          else APIError),
                   attrs = [(''code'', PInt c),
                            (''err_code'', kwarg err ''err_code''),
                            (''description'', kwarg err ''description''),
                            (''stream'', kwarg err ''stream''),
                            (''seq'', kwarg err ''seq'')]\<rparr>"
proof -
  have keys: "set (map fst err) \<subseteq> {''code'', ''description'', ''err_code'', ''stream'', ''seq''}"
    using assms(2) by auto
  have code: "kwarg err ''code'' = PInt c"
    using assms(1) by (simp add: kwarg_def)
  show ?thesis
    using code by (simp add: from_error_def assms(1) raise_new_def construct_APIError_family[OF _ keys])
qed

text \<open>The classification of a 404 body that omits \<^verbatim>\<open>stream\<close> and \<^verbatim>\<open>seq\<close>.\<close>

theorem from_error_classifies_witness:
  "from_error [(''code'', PInt 404), (''description'', PStr ''stream not found''),
               (''err_code'', PInt 10059)] =
     Raised \<lparr>cls = NotFoundError,
             attrs = [(''code'', PInt 404), (''err_code'', PInt 10059),
                      (''description'', PStr ''stream not found''),
                      (''stream'', PNone), (''seq'', PNone)]\<rparr>"
proof -
  let ?err = "[(''code'', PInt 404), (''description'', PStr ''stream not found''),
               (''err_code'', PInt 10059)]"
  have h1: "map_of ?err ''code'' = Some (PInt 404)"
    by simp
  have h2: "set (map fst ?err) \<subseteq> {''code'', ''err_code'', ''description'', ''stream'', ''seq''}"
    by simp
  from from_error_classifies[OF h1 h2] show ?thesis
    by (simp add: kwarg_def)
qed

section \<open>Classification of header responses\<close>

text \<open>A status class raised without arguments has all five attributes \<^verbatim>\<open>None\<close>.\<close>

lemma raise_new_no_arguments:
  assumes "k \<in> {APIError, ServiceUnavailableError, ServerError, NotFoundError, BadRequestError}"
  shows "raise_new k [] =
           Raised \<lparr>cls = k,
                   attrs = [(''code'', PNone), (''err_code'', PNone), (''description'', PNone),
                            (''stream'', PNone), (''seq'', PNone)]\<rparr>"
  using construct_APIError_family[OF assms, of "[]"] by (simp add: raise_new_def kwarg_def)

lemma py_int_404: "py_int ''404'' = Some 404"
  by (simp add: py_int_def strip_def is_space_def py_nat_literal_def digit_val_def)

text \<open>
  Claim C3. On a message that carries no headers at all, \<^verbatim>\<open>APIError.from_msg\<close> raises a plain
  \<^verbatim>\<open>APIError\<close> whose \<^verbatim>\<open>code\<close>, \<^verbatim>\<open>err_code\<close>, \<^verbatim>\<open>description\<close>, \<^verbatim>\<open>stream\<close> and \<^verbatim>\<open>seq\<close> are
  all \<^verbatim>\<open>None\<close>.
\<close>

theorem from_msg_no_headers:
  assumes "header m = None"
  shows "from_msg api m =
           Raised \<lparr>cls = APIError,
                   attrs = [(''code'', PNone), (''err_code'', PNone), (''description'', PNone),
                            (''stream'', PNone), (''seq'', PNone)]\<rparr>"
  using assms by (simp add: from_msg_def raise_new_no_arguments)

text \<open>The message without headers, classified.\<close>

theorem from_msg_no_headers_witness:
  "header \<lparr>header = None\<rparr> = None \<and>
   from_msg nats_js_api \<lparr>header = None\<rparr> =
     Raised \<lparr>cls = APIError,
             attrs = [(''code'', PNone), (''err_code'', PNone), (''description'', PNone),
                      (''stream'', PNone), (''seq'', PNone)]\<rparr>"
proof -
  have h: "header \<lparr>header = None\<rparr> = None"
    by simp
  from from_msg_no_headers[OF h, of nats_js_api] h show ?thesis
    by simp
qed

text \<open>
  Claim C4. When the status entry of the headers equals the service-unavailable status
  code, \<^verbatim>\<open>APIError.from_msg\<close> raises a \<^verbatim>\<open>ServiceUnavailableError\<close> with no attribute
  populated, whatever the headers hold besides: nothing is assumed about a description
  entry.
\<close>

theorem from_msg_service_unavailable:
  assumes "header m = Some hdr"
    and "map_of hdr (Header_STATUS api) = Some (StatusCode_SERVICE_UNAVAILABLE api)"
  shows "from_msg api m =
           Raised \<lparr>cls = ServiceUnavailableError,
                   attrs = [(''code'', PNone), (''err_code'', PNone), (''description'', PNone),
                            (''stream'', PNone), (''seq'', PNone)]\<rparr>"
  using assms by (simp add: from_msg_def raise_new_no_arguments)

text \<open>A 503 status with a description entry, and one without.\<close>

theorem from_msg_service_unavailable_witness:
  "from_msg nats_js_api
     \<lparr>header = Some [(''Status'', ''503''), (''Description'', ''No Responders'')]\<rparr> =
     Raised \<lparr>cls = ServiceUnavailableError,
             attrs = [(''code'', PNone), (''err_code'', PNone), (''description'', PNone),
                      (''stream'', PNone), (''seq'', PNone)]\<rparr>
   \<and> from_msg nats_js_api \<lparr>header = Some [(''Status'', ''503'')]\<rparr> =
     Raised \<lparr>cls = ServiceUnavailableError,
             attrs = [(''code'', PNone), (''err_code'', PNone), (''description'', PNone),
                      (''stream'', PNone), (''seq'', PNone)]\<rparr>"
proof -
  let ?h1 = "[(''Status'', ''503''), (''Description'', ''No Responders'')]"
  let ?h2 = "[(''Status'', ''503'')]"
  have a1: "header \<lparr>header = Some ?h1\<rparr> = Some ?h1"
    and a2: "header \<lparr>header = Some ?h2\<rparr> = Some ?h2"
    by simp_all
  have b1: "map_of ?h1 (Header_STATUS nats_js_api) =
              Some (StatusCode_SERVICE_UNAVAILABLE nats_js_api)"
    and b2: "map_of ?h2 (Header_STATUS nats_js_api) =
              Some (StatusCode_SERVICE_UNAVAILABLE nats_js_api)"
    by (simp_all add: nats_js_api_def)
  from from_msg_service_unavailable[OF a1 b1] from_msg_service_unavailable[OF a2 b2]
  show ?thesis by simp
qed

text \<open>
  Claim C2, as amended. When the headers hold a status entry that differs from the
  service-unavailable status code and converts to the integer \<open>n\<close>, and hold a description
  entry \<open>desc\<close>, \<^verbatim>\<open>APIError.from_msg\<close> raises a plain \<^verbatim>\<open>APIError\<close> with \<^verbatim>\<open>code\<close> \<open>n\<close> and
  \<^verbatim>\<open>description\<close> \<open>desc\<close>; its other attributes are \<^verbatim>\<open>None\<close>.
\<close>

theorem from_msg_generic:
  assumes "header m = Some hdr"
    and "map_of hdr (Header_STATUS api) = Some status"
    and "status \<noteq> StatusCode_SERVICE_UNAVAILABLE api"
    and "py_int status = Some n"
    and "map_of hdr (Header_DESCRIPTION api) = Some desc"
  shows "from_msg api m =
           Raised \<lparr>cls = APIError,
                   attrs = [(''code'', PInt n), (''err_code'', PNone),
                            (''description'', PStr desc),
                            (''stream'', PNone), (''seq'', PNone)]\<rparr>"
proof -
  have "raise_new APIError [(''code'', PInt n), (''description'', PStr desc)] =
          Raised \<lparr>cls = APIError,
                  attrs = [(''code'', PInt n), (''err_code'', PNone),
                           (''description'', PStr desc),
                           (''stream'', PNone), (''seq'', PNone)]\<rparr>"
    using construct_APIError_family
      [of APIError "[(''code'', PInt n), (''description'', PStr desc)]"]
    by (simp add: raise_new_def kwarg_def)
  then show ?thesis
    using assms by (simp add: from_msg_def)
qed

text \<open>A 404 status with its description.\<close>

theorem from_msg_generic_witness:
  "from_msg nats_js_api
     \<lparr>header = Some [(''Status'', ''404''), (''Description'', ''No Messages'')]\<rparr> =
     Raised \<lparr>cls = APIError,
             attrs = [(''code'', PInt 404), (''err_code'', PNone),
                      (''description'', PStr ''No Messages''),
                      (''stream'', PNone), (''seq'', PNone)]\<rparr>"
proof -
  let ?h = "[(''Status'', ''404''), (''Description'', ''No Messages'')]"
  have a: "header \<lparr>header = Some ?h\<rparr> = Some ?h"
    by simp
  have b: "map_of ?h (Header_STATUS nats_js_api) = Some ''404''"
    by (simp add: nats_js_api_def)
  have c: "''404'' \<noteq> StatusCode_SERVICE_UNAVAILABLE nats_js_api"
    by (simp add: nats_js_api_def)
  have d: "map_of ?h (Header_DESCRIPTION nats_js_api) = Some ''No Messages''"
    by (simp add: nats_js_api_def)
  from from_msg_generic[OF a b c py_int_404 d] show ?thesis .
qed

text \<open>
  Claim C2 as first stated also covers headers without a description entry, for which it
  promises a plain \<^verbatim>\<open>APIError\<close> with the parsed code and no description. The method reads
  the description with a subscript, so on a 404 status alone the lookup fails with a
  \<^verbatim>\<open>KeyError\<close> and no \<^verbatim>\<open>APIError\<close> is raised.
\<close>

theorem from_msg_absent_description_counterexample:
  "from_msg nats_js_api \<lparr>header = Some [(''Status'', ''404'')]\<rparr> = KeyError ''Description''
   \<and> from_msg nats_js_api \<lparr>header = Some [(''Status'', ''404'')]\<rparr> \<noteq>
       Raised \<lparr>cls = APIError,
               attrs = [(''code'', PInt 404), (''err_code'', PNone), (''description'', PNone),
                        (''stream'', PNone), (''seq'', PNone)]\<rparr>"
  by (simp add: from_msg_def nats_js_api_def)

section \<open>String conversion of the status classes\<close>

text \<open>
  Claim C5. For an instance of \<^verbatim>\<open>APIError\<close>, \<^verbatim>\<open>ServiceUnavailableError\<close>, \<^verbatim>\<open>ServerError\<close>,
  \<^verbatim>\<open>NotFoundError\<close> or \<^verbatim>\<open>BadRequestError\<close> whose attributes \<^verbatim>\<open>code\<close>, \<^verbatim>\<open>err_code\<close> and
  \<^verbatim>\<open>description\<close> are \<open>c\<close>, \<open>ec\<close> and \<open>d\<close>, the string conversion is exactly
  \<^verbatim>\<open>nats: <class name>: code=<c> err_code=<ec> description='<d>'\<close>. An unset attribute
  prints as \<^verbatim>\<open>None\<close> in its slot: an instance built without arguments prints all three
  slots so.
\<close>

theorem APIError_family_str:
  assumes "cls self \<in> {APIError, ServiceUnavailableError, ServerError, NotFoundError,
                          BadRequestError}"
    and "getattr self ''code'' = Inr c"
    and "getattr self ''err_code'' = Inr ec"
    and "getattr self ''description'' = Inr d"
  shows "exc_str self =
           Inr (''nats: '' @ class_name (cls self) @ '': code='' @ py_str c
                @ '' err_code='' @ py_str ec
                @ '' description='' @ [CHR 0x27] @ py_str d @ [CHR 0x27])
         \<and> py_str PNone = ''None''
         \<and> str_of_new (cls self) [] =
           Inr (''nats: '' @ class_name (cls self) @ '': code=None err_code=None description=''
                @ [CHR 0x27] @ ''None'' @ [CHR 0x27])"
proof -
  have owner: "lookup_method defines_str (cls self) = Some APIError"
    using assms(1) by (auto simp: str_owner)
  have new: "construct (cls self) [] =
               Inr \<lparr>cls = cls self,
                    attrs = [(''code'', PNone), (''err_code'', PNone), (''description'', PNone),
                             (''stream'', PNone), (''seq'', PNone)]\<rparr>"
    using construct_APIError_family[OF assms(1), of "[]"] by (simp add: kwarg_def)
  have "exc_str self =
          Inr (''nats: '' @ class_name (cls self) @ '': code='' @ py_str c
               @ '' err_code='' @ py_str ec
               @ '' description='' @ [CHR 0x27] @ py_str d @ [CHR 0x27])"
    by (simp add: exc_str_def owner APIError_str_def assms(2-4))
  moreover have "str_of_new (cls self) [] =
          Inr (''nats: '' @ class_name (cls self) @ '': code=None err_code=None description=''
               @ [CHR 0x27] @ ''None'' @ [CHR 0x27])"
    by (simp add: str_of_new_def new exc_str_def owner APIError_str_def getattr_def)
  ultimately show ?thesis
    by simp
qed

text \<open>A \<^verbatim>\<open>NotFoundError\<close> built with a code and a description, and no \<^verbatim>\<open>err_code\<close>.\<close>

theorem APIError_family_str_witness:
  "str_of_new NotFoundError [(''code'', PInt 404), (''description'', PStr ''stream not found'')] =
     Inr (''nats: NotFoundError: code=404 err_code=None description=''
          @ [CHR 0x27] @ ''stream not found'' @ [CHR 0x27])"
proof -
  let ?kw = "[(''code'', PInt 404), (''description'', PStr ''stream not found'')]"
  let ?self = "\<lparr>cls = NotFoundError,
                 attrs = [(''code'', PInt 404), (''err_code'', PNone),
                          (''description'', PStr ''stream not found''),
                          (''stream'', PNone), (''seq'', PNone)]\<rparr>"
  have new: "construct NotFoundError ?kw = Inr ?self"
    using construct_APIError_family[of NotFoundError ?kw] by (simp add: kwarg_def)
  have k: "cls ?self \<in> {APIError, ServiceUnavailableError, ServerError, NotFoundError,
                          BadRequestError}"
    by simp
  have c: "getattr ?self ''code'' = Inr (PInt 404)"
    and ec: "getattr ?self ''err_code'' = Inr PNone"
    and d: "getattr ?self ''description'' = Inr (PStr ''stream not found'')"
    by (simp_all add: getattr_def)
  from APIError_family_str[OF k c ec d] show ?thesis
    by (simp add: str_of_new_def new str_int_def str_nat.simps)
qed

section \<open>String conversion of the sequence mismatch\<close>

lemma construct_ConsumerSequenceMismatchError:
  "construct ConsumerSequenceMismatchError
     [(''stream_resume_sequence'', r), (''consumer_sequence'', c),
      (''last_consumer_sequence'', l)] =
   Inr \<lparr>cls = ConsumerSequenceMismatchError,
        attrs = [(''stream_resume_sequence'', r), (''consumer_sequence'', c),
                 (''last_consumer_sequence'', l)]\<rparr>"
  by (simp add: construct_def init_owner bind_kwargs_def kwarg_def
      ConsumerSequenceMismatchError_init_def setattr_def)

lemma str_of_new_ConsumerSequenceMismatchError:
  "str_of_new ConsumerSequenceMismatchError
     [(''stream_resume_sequence'', PInt r), (''consumer_sequence'', PInt c),
      (''last_consumer_sequence'', PInt l)] =
   Inr (''nats: sequence mismatch for consumer at sequence '' @ str_int c
        @ '' ('' @ str_int (l - c)
        @ '' sequences behind), should restart consumer from stream sequence '' @ str_int r)"
  by (simp add: str_of_new_def construct_ConsumerSequenceMismatchError exc_str_def str_owner
      ConsumerSequenceMismatchError_str_def getattr_def)

text \<open>
  Claim C6. A \<^verbatim>\<open>ConsumerSequenceMismatchError\<close> built with the integers \<open>r\<close> (stream resume
  sequence), \<open>c\<close> (consumer sequence) and \<open>l\<close> (last consumer sequence) converts to exactly
  \<^verbatim>\<open>nats: sequence mismatch for consumer at sequence <c> (<l - c> sequences behind), should
  restart consumer from stream sequence <r>\<close>. For \<open>r = 10\<close>, \<open>c = 5\<close>, \<open>l = 8\<close> the gap prints
  as 3; when \<open>l < c\<close> the gap prints as the negative number \<open>l - c\<close>, a minus sign followed
  by the digits of \<open>c - l\<close>.
\<close>

theorem ConsumerSequenceMismatchError_str_gap:
  "str_of_new ConsumerSequenceMismatchError
     [(''stream_resume_sequence'', PInt r), (''consumer_sequence'', PInt c),
      (''last_consumer_sequence'', PInt l)] =
     Inr (''nats: sequence mismatch for consumer at sequence '' @ str_int c
          @ '' ('' @ str_int (l - c)
          @ '' sequences behind), should restart consumer from stream sequence '' @ str_int r)
   \<and> str_of_new ConsumerSequenceMismatchError
       [(''stream_resume_sequence'', PInt 10), (''consumer_sequence'', PInt 5),
        (''last_consumer_sequence'', PInt 8)] =
     Inr (''nats: sequence mismatch for consumer at sequence 5 (3 sequences behind), ''
          @ ''should restart consumer from stream sequence 10'')
   \<and> (l < c \<longrightarrow> str_int (l - c) = CHR ''-'' # str_nat (nat (c - l)))"
proof -
  have "str_int 10 = ''10''" and "str_int 5 = ''5''" and "str_int (8 - 5) = ''3''"
    by (simp_all add: str_int_def str_nat.simps)
  moreover have "l < c \<longrightarrow> str_int (l - c) = CHR ''-'' # str_nat (nat (c - l))"
    by (simp add: str_int_def)
  ultimately show ?thesis
    using str_of_new_ConsumerSequenceMismatchError[of 10 5 8]
    by (simp add: str_of_new_ConsumerSequenceMismatchError)
qed

text \<open>The last consumer sequence below the consumer sequence: the gap prints as -3.\<close>

theorem ConsumerSequenceMismatchError_str_gap_witness:
  "str_of_new ConsumerSequenceMismatchError
     [(''stream_resume_sequence'', PInt 10), (''consumer_sequence'', PInt 8),
      (''last_consumer_sequence'', PInt 5)] =
     Inr (''nats: sequence mismatch for consumer at sequence 8 (-3 sequences behind), ''
          @ ''should restart consumer from stream sequence 10'')"
proof -
  have "(5::int) < 8"
    by simp
  with ConsumerSequenceMismatchError_str_gap[of 10 8 5] show ?thesis
    by (simp add: str_int_def str_nat.simps)
qed

section \<open>Capabilities\<close>

text \<open>
  Claim C7. Every instance of \<^verbatim>\<open>KeyDeletedError\<close> and of \<^verbatim>\<open>KeyNotFoundError\<close> is an
  instance of \<^verbatim>\<open>KeyValueError\<close> and of \<^verbatim>\<open>NotFoundError\<close>; and every instance of
  \<^verbatim>\<open>KeyNotFoundError\<close>, \<^verbatim>\<open>KeyDeletedError\<close>, \<^verbatim>\<open>BucketNotFoundError\<close>,
  \<^verbatim>\<open>ObjectNotFoundError\<close>, \<^verbatim>\<open>ObjectDeletedError\<close> and \<^verbatim>\<open>NotFoundError\<close> itself is an
  instance of \<^verbatim>\<open>NotFoundError\<close>.
\<close>

theorem not_found_capabilities:
  "(cls e \<in> {KeyDeletedError, KeyNotFoundError} \<longrightarrow>
      isinstance e KeyValueError \<and> isinstance e NotFoundError)
   \<and> (cls e \<in> {KeyNotFoundError, KeyDeletedError, BucketNotFoundError, ObjectNotFoundError,
                 ObjectDeletedError, NotFoundError} \<longrightarrow>
      isinstance e NotFoundError)"
  by (auto simp: isinstance_def issubclass_def mro_table)

text \<open>A deleted key's error, checked along both axes.\<close>

theorem not_found_capabilities_witness:
  "isinstance \<lparr>cls = KeyDeletedError, attrs = [(''entry'', PNone), (''op'', PStr ''DEL'')]\<rparr>
     KeyValueError
   \<and> isinstance \<lparr>cls = KeyDeletedError, attrs = [(''entry'', PNone), (''op'', PStr ''DEL'')]\<rparr>
     NotFoundError"
  using not_found_capabilities
    [of "\<lparr>cls = KeyDeletedError, attrs = [(''entry'', PNone), (''op'', PStr ''DEL'')]\<rparr>"]
  by simp

section \<open>String conversion of the key-value errors\<close>

lemma construct_KeyNotFoundError:
  assumes "set (map fst kwargs) \<subseteq> {''entry'', ''op'', ''message''}"
  shows "construct KeyNotFoundError kwargs =
           Inr \<lparr>cls = KeyNotFoundError,
                attrs = [(''entry'', kwarg kwargs ''entry''), (''op'', kwarg kwargs ''op''),
                         (''message'', kwarg kwargs ''message'')]\<rparr>"
proof -
  have "bind_kwargs [''entry'', ''op'', ''message''] kwargs = Inr (kwarg kwargs)"
    using assms by (auto simp: bind_kwargs_def)
  then show ?thesis
    by (simp add: construct_def init_owner KeyNotFoundError_init_def setattr_def)
qed

lemma str_of_new_KeyNotFoundError:
  assumes "set (map fst kwargs) \<subseteq> {''entry'', ''op'', ''message''}"
  shows "str_of_new KeyNotFoundError kwargs =
           Inr (if py_bool (kwarg kwargs ''message'')
                then ''nats: key not found: '' @ py_str (kwarg kwargs ''message'')
                else ''nats: key not found'')"
  by (simp add: str_of_new_def construct_KeyNotFoundError[OF assms] exc_str_def str_owner
      KeyNotFoundError_str_def getattr_def)

lemma str_of_new_KeyWrongLastSequenceError:
  "str_of_new KeyWrongLastSequenceError [(''description'', d)] = Inr (''nats: '' @ py_str d)"
  by (simp add: str_of_new_def construct_def init_owner bind_kwargs_def kwarg_def
      KeyWrongLastSequenceError_init_def setattr_def exc_str_def str_owner
      KeyWrongLastSequenceError_str_def getattr_def)

text \<open>
  Claim C8, as amended. A \<^verbatim>\<open>KeyNotFoundError\<close> built with a message \<open>m\<close> that is not the
  empty string converts to exactly \<^verbatim>\<open>nats: key not found: <m>\<close>; built without a message
  it converts to exactly \<^verbatim>\<open>nats: key not found\<close>. (The keywords are any of \<^verbatim>\<open>entry\<close>,
  \<^verbatim>\<open>op\<close> and \<^verbatim>\<open>message\<close>.)
\<close>

theorem KeyNotFoundError_str_message:
  assumes "set (map fst kwargs) \<subseteq> {''entry'', ''op'', ''message''}"
  shows "(map_of kwargs ''message'' = Some (PStr m) \<and> m \<noteq> [] \<longrightarrow>
            str_of_new KeyNotFoundError kwargs = Inr (''nats: key not found: '' @ m))
         \<and> (map_of kwargs ''message'' = None \<longrightarrow>
            str_of_new KeyNotFoundError kwargs = Inr ''nats: key not found'')"
  by (simp add: str_of_new_KeyNotFoundError[OF assms] kwarg_def)

text \<open>The message \<^verbatim>\<open>bucket closed\<close>, and no message.\<close>

theorem KeyNotFoundError_str_message_witness:
  "str_of_new KeyNotFoundError [(''message'', PStr ''bucket closed'')] =
     Inr ''nats: key not found: bucket closed''
   \<and> str_of_new KeyNotFoundError [] = Inr ''nats: key not found''"
proof -
  have a: "set (map fst [(''message'', PStr ''bucket closed'')])
             \<subseteq> {''entry'', ''op'', ''message''}"
    and b: "set (map fst ([] :: pyval pydict)) \<subseteq> {''entry'', ''op'', ''message''}"
    by simp_all
  from KeyNotFoundError_str_message[OF a, of "''bucket closed''"]
    KeyNotFoundError_str_message[OF b]
  show ?thesis by simp
qed

text \<open>
  Claim C8 as first stated promises the suffix for every supplied message. The method
  tests the truth value of the message, so a supplied empty string gets no suffix: the
  conversion is not \<^verbatim>\<open>nats: key not found: \<close> followed by the empty message.
\<close>

theorem KeyNotFoundError_empty_message_counterexample:
  "str_of_new KeyNotFoundError [(''message'', PStr [])] \<noteq> Inr (''nats: key not found: '' @ [])"
proof -
  have "set (map fst [(''message'', PStr [])]) \<subseteq> {''entry'', ''op'', ''message''}"
    by simp
  from str_of_new_KeyNotFoundError[OF this] show ?thesis
    by (simp add: kwarg_def)
qed

text \<open>
  Claim C9, as amended. A \<^verbatim>\<open>KeyWrongLastSequenceError\<close> built with the description \<open>d\<close>
  converts to \<^verbatim>\<open>nats: \<close> followed by \<open>d\<close>, unchanged.
\<close>

theorem KeyWrongLastSequenceError_str_description:
  "str_of_new KeyWrongLastSequenceError [(''description'', PStr d)] = Inr (''nats: '' @ d)"
  by (simp add: str_of_new_KeyWrongLastSequenceError)

text \<open>A description as the server words it.\<close>

theorem KeyWrongLastSequenceError_str_description_witness:
  "str_of_new KeyWrongLastSequenceError [(''description'', PStr ''wrong last sequence: 5'')] =
     Inr ''nats: wrong last sequence: 5''"
  using KeyWrongLastSequenceError_str_description[of "''wrong last sequence: 5''"] by simp

text \<open>
  Claim C9 as first stated has the conversion return the description itself. The returned
  string carries the prefix \<^verbatim>\<open>nats: \<close>, so it is not the description.
\<close>

theorem KeyWrongLastSequenceError_prefix_counterexample:
  "str_of_new KeyWrongLastSequenceError [(''description'', PStr ''wrong last sequence: 5'')] \<noteq>
     Inr ''wrong last sequence: 5''"
  by (simp add: str_of_new_KeyWrongLastSequenceError)

section \<open>Empty text and absent text\<close>

lemma construct_Error_family:
  assumes "lookup_method defines_init k = Some Error"
    and "set (map fst kwargs) \<subseteq> {''description''}"
  shows "construct k kwargs =
           Inr \<lparr>cls = k, attrs = [(''description'', kwarg kwargs ''description'')]\<rparr>"
proof -
  have "bind_kwargs [''description''] kwargs = Inr (kwarg kwargs)"
    using assms(2) by (auto simp: bind_kwargs_def)
  then show ?thesis
    by (simp add: construct_def assms(1) Error_init_def setattr_def)
qed

lemma exc_str_falsy_description:
  assumes "lookup_method defines_init k = Some Error" and "\<not> py_bool d"
  shows "exc_str \<lparr>cls = k, attrs = [(''description'', d)]\<rparr> =
           Inr (if lookup_method defines_str k = Some Error
                then ''nats: JetStream.'' @ class_name k @ '' ''
                else if k = NoStreamResponseError then ''nats: no response from stream''
                else ''nats: stalled with too many outstanding async published messages'')"
  using assms
  by (cases k) (simp_all add: init_owner exc_str_def str_owner Error_str_def getattr_def)

text \<open>
  Claim C10. Whatever the class name, as long as the class is built by \<^verbatim>\<open>Error.__init__\<close>:
  an instance built with the empty string as description converts to the same string as
  one built without a description, and the conversion succeeds; where the class also
  converts by \<^verbatim>\<open>Error.__str__\<close> that string is \<^verbatim>\<open>nats: JetStream.<class name> \<close>. A
  \<^verbatim>\<open>KeyNotFoundError\<close> built with the empty string as message converts to exactly
  \<^verbatim>\<open>nats: key not found\<close>, as does one built without a message.
\<close>

theorem empty_text_renders_as_absent:
  "(lookup_method defines_init k = Some Error \<longrightarrow>
      str_of_new k [(''description'', PStr [])] = str_of_new k []
      \<and> (\<exists>s. str_of_new k [] = Inr s)
      \<and> (lookup_method defines_str k = Some Error \<longrightarrow>
           str_of_new k [] = Inr (''nats: JetStream.'' @ class_name k @ '' '')))
   \<and> str_of_new KeyNotFoundError [(''message'', PStr [])] = Inr ''nats: key not found''
   \<and> str_of_new KeyNotFoundError [(''message'', PStr [])] = str_of_new KeyNotFoundError []"
proof -
  have "str_of_new k [(''description'', PStr [])] = str_of_new k []
        \<and> (\<exists>s. str_of_new k [] = Inr s)
        \<and> (lookup_method defines_str k = Some Error \<longrightarrow>
             str_of_new k [] = Inr (''nats: JetStream.'' @ class_name k @ '' ''))"
    if owner: "lookup_method defines_init k = Some Error"
  proof -
    have a: "construct k [(''description'', PStr [])] =
               Inr \<lparr>cls = k, attrs = [(''description'', PStr [])]\<rparr>"
      using construct_Error_family[OF owner, of "[(''description'', PStr [])]"]
      by (simp add: kwarg_def)
    have b: "construct k [] = Inr \<lparr>cls = k, attrs = [(''description'', PNone)]\<rparr>"
      using construct_Error_family[OF owner, of "[]"] by (simp add: kwarg_def)
    show ?thesis
      by (simp add: str_of_new_def a b exc_str_falsy_description[OF owner])
  qed
  moreover have "str_of_new KeyNotFoundError [(''message'', PStr [])] = Inr ''nats: key not found''"
    using str_of_new_KeyNotFoundError[of "[(''message'', PStr [])]"] by (simp add: kwarg_def)
  moreover have "str_of_new KeyNotFoundError [] = Inr ''nats: key not found''"
    using str_of_new_KeyNotFoundError[of "[]"] by (simp add: kwarg_def)
  ultimately show ?thesis
    by simp
qed

text \<open>An \<^verbatim>\<open>InvalidBucketNameError\<close> with the empty description, and with none.\<close>

theorem empty_text_renders_as_absent_witness:
  "str_of_new InvalidBucketNameError [(''description'', PStr [])] =
     Inr ''nats: JetStream.InvalidBucketNameError ''
   \<and> str_of_new InvalidBucketNameError [] = Inr ''nats: JetStream.InvalidBucketNameError ''"
proof -
  have a: "lookup_method defines_init InvalidBucketNameError = Some Error"
    and b: "lookup_method defines_str InvalidBucketNameError = Some Error"
    by (simp_all add: init_owner str_owner)
  from empty_text_renders_as_absent[of InvalidBucketNameError] a b show ?thesis
    by simp
qed

end
